theory Spec2Isabelle
  imports Main "HOL-Library.Word"
begin

section \<open>pybank: the transaction and account state machine of bank/bank.py\<close>

text \<open>
  The embedding follows \<^verbatim>\<open>bank/bank.py\<close>, \<^verbatim>\<open>bank/errors.py\<close> and
  \<^verbatim>\<open>bank/utils.py\<close>. Python's \<^verbatim>\<open>int\<close> is \<^typ>\<open>int\<close>. A method that mutates
  \<^verbatim>\<open>self\<close> takes the object and returns the pair of its outcome and the object as the
  call leaves it: the outcome is \<open>Inl e\<close> when the call raises \<open>e\<close> and \<open>Inr v\<close> when it
  returns \<open>v\<close>. The object is returned on the raising paths too, so that whatever a method
  has written before it raises stays visible. Every public method of \<^verbatim>\<open>Account\<close> runs
  under the account's lock, so the calls on one account are modelled one after another.
\<close>

subsection \<open>Errors (bank/errors.py)\<close>

text \<open>
  The subclasses of \<^verbatim>\<open>BankError\<close>, and Python's built-in \<^verbatim>\<open>KeyError\<close>, which a
  subscript \<^verbatim>\<open>d[k]\<close> on a dictionary raises for an absent key.
\<close>

type_synonym UUID = "128 word"

datatype error =
    CannotCaptureMoreThanAuthorized
  | CannotRefundMoreThanCaptured
  | InsufficientFundsError
  | InvalidAmountError
  | AuthorizationAlreadyCapturedError
  | CaptureNotAuthorized
  | CancelationNotAuthorized
  | CannotCancelCapturedTransaction
  | AccountNotFoundError string
  | KeyError UUID

text \<open>The name of the Python class of an exception.\<close>

fun class_name :: "error \<Rightarrow> string" where
  "class_name CannotCaptureMoreThanAuthorized = ''CannotCaptureMoreThanAuthorized''"
| "class_name CannotRefundMoreThanCaptured = ''CannotRefundMoreThanCaptured''"
| "class_name InsufficientFundsError = ''InsufficientFundsError''"
| "class_name InvalidAmountError = ''InvalidAmountError''"
| "class_name AuthorizationAlreadyCapturedError = ''AuthorizationAlreadyCapturedError''"
| "class_name CaptureNotAuthorized = ''CaptureNotAuthorized''"
| "class_name CancelationNotAuthorized = ''CancelationNotAuthorized''"
| "class_name CannotCancelCapturedTransaction = ''CannotCancelCapturedTransaction''"
| "class_name (AccountNotFoundError a) = ''AccountNotFoundError''"
| "class_name (KeyError k) = ''KeyError''"

text \<open>Whether an outcome is an exception of the class with the given name.\<close>

fun raises :: "error + 'a \<Rightarrow> string \<Rightarrow> bool" where
  "raises (Inl e) n = (class_name e = n)"
| "raises (Inr v) n = False"

subsection \<open>bank/utils.py: the authorization code\<close>

text \<open>
  \<^verbatim>\<open>str(i)\<close> for a non-negative integer, and \<^verbatim>\<open>concat\<close>, which joins the decimal
  renderings. \<^verbatim>\<open>random_authorization_code\<close> is \<^verbatim>\<open>concat(random.choices(range(10), k=6))\<close>:
  the six digits that \<^verbatim>\<open>random.choices\<close> draws are an argument of the model.
\<close>

definition digit_char :: "nat \<Rightarrow> char" where
  "digit_char d = char_of (48 + d)"

function str_nat :: "nat \<Rightarrow> string" where
  "str_nat n = (if n < 10 then [digit_char n] else str_nat (n div 10) @ [digit_char (n mod 10)])"
  by pat_completeness auto
termination
  by (relation "measure (\<lambda>n. n)") auto

declare str_nat.simps [simp del]

definition concat_str :: "nat list \<Rightarrow> string" where
  "concat_str seq = concat (map str_nat seq)"

definition random_authorization_code :: "nat list \<Rightarrow> string" where
  "random_authorization_code choices = concat_str choices"

subsection \<open>Capture, Refund, Status, Transaction\<close>

datatype Capture = Capture (capture_amount: int)

datatype Refund = Refund (refund_amount: int)

datatype Status = CREATED | AUTHORIZED | CANCELLED

text \<open>
  The fields of \<^verbatim>\<open>Transaction\<close>; \<open>id_tx\<close> is the field \<^verbatim>\<open>id\<close>, \<open>captures\<close> and
  \<open>refunds\<close> are the private lists \<^verbatim>\<open>_captures\<close> and \<^verbatim>\<open>_refunds\<close>.
\<close>

record Transaction =
  id_tx :: UUID
  amount :: int
  status :: Status
  authorization_code :: string
  captures :: "Capture list"
  refunds :: "Refund list"

text \<open>
  The class body declares \<^verbatim>\<open>id: UUID = uuid4()\<close>. Python evaluates the right-hand side
  once, when the class statement runs, and the value becomes the default of the field.
  \<^verbatim>\<open>Account.__add_transaction\<close>, the only place that builds a transaction, passes
  \<^verbatim>\<open>amount\<close>, \<^verbatim>\<open>status\<close> and \<^verbatim>\<open>authorization_code\<close> and no \<^verbatim>\<open>id\<close>, so the
  constructor takes the default. The value that \<^verbatim>\<open>uuid4()\<close> returned at class creation is
  the argument \<open>id_default\<close>; the two lists start empty (\<^verbatim>\<open>default_factory=list\<close>).
\<close>

definition Transaction_init :: "UUID \<Rightarrow> int \<Rightarrow> Status \<Rightarrow> string \<Rightarrow> Transaction" where
  "Transaction_init id_default amt st code =
     \<lparr>id_tx = id_default, amount = amt, status = st, authorization_code = code,
      captures = [], refunds = []\<rparr>"

definition captured_amount :: "Transaction \<Rightarrow> int" where
  "captured_amount self = sum_list (map capture_amount (captures self))"

definition refunded_amount :: "Transaction \<Rightarrow> int" where
  "refunded_amount self = sum_list (map refund_amount (refunds self))"

definition has_captures :: "Transaction \<Rightarrow> bool" where
  "has_captures self = (length (captures self) > 0)"

definition is_cancelled :: "Transaction \<Rightarrow> bool" where
  "is_cancelled self = (status self = CANCELLED)"

definition is_authorized :: "Transaction \<Rightarrow> bool" where
  "is_authorized self = (status self = AUTHORIZED)"

definition Transaction_capture :: "Transaction \<Rightarrow> int \<Rightarrow> (error + Capture) \<times> Transaction" where
  "Transaction_capture self amt =
     (if \<not> is_authorized self then (Inl CaptureNotAuthorized, self)
      else if captured_amount self + amt > amount self
        then (Inl CannotCaptureMoreThanAuthorized, self)
      else (Inr (Capture amt), self\<lparr>captures := captures self @ [Capture amt]\<rparr>))"

definition Transaction_cancel :: "Transaction \<Rightarrow> (error + unit) \<times> Transaction" where
  "Transaction_cancel self =
     (if is_cancelled self then (Inr (), self)
      else if \<not> is_authorized self then (Inl CancelationNotAuthorized, self)
      else if has_captures self then (Inl CannotCancelCapturedTransaction, self)
      else (Inr (), self\<lparr>status := CANCELLED\<rparr>))"

definition Transaction_refund :: "Transaction \<Rightarrow> int \<Rightarrow> (error + Refund) \<times> Transaction" where
  "Transaction_refund self amt =
     (if refunded_amount self + amt > captured_amount self
        then (Inl CannotRefundMoreThanCaptured, self)
      else (Inr (Refund amt), self\<lparr>refunds := refunds self @ [Refund amt]\<rparr>))"

subsection \<open>Account\<close>

text \<open>
  The private attributes \<^verbatim>\<open>__balance\<close>, \<^verbatim>\<open>__authorized_amount\<close> and
  \<^verbatim>\<open>__transactions\<close>. The dictionary holds the transaction objects; the account is their
  only holder, so a method call on a looked-up transaction is modelled by writing the
  transaction, as the call leaves it, back under the key it was read from.
\<close>

record Account =
  balance :: int
  authorized_amount :: int
  transactions :: "UUID \<rightharpoonup> Transaction"

definition Account_init :: "int \<Rightarrow> Account" where
  "Account_init b = \<lparr>balance = b, authorized_amount = 0, transactions = Map.empty\<rparr>"

definition put_transaction :: "Account \<Rightarrow> UUID \<Rightarrow> Transaction \<Rightarrow> Account" where
  "put_transaction self k t = self\<lparr>transactions := (transactions self)(k \<mapsto> t)\<rparr>"

definition Account_reduce_hold :: "Account \<Rightarrow> int \<Rightarrow> (error + unit) \<times> Account" where
  "Account_reduce_hold self amt =
     (if authorized_amount self < amt then (Inl InsufficientFundsError, self)
      else (Inr (), self\<lparr>authorized_amount := authorized_amount self - amt\<rparr>))"

definition Account_authorize_amount :: "Account \<Rightarrow> int \<Rightarrow> (error + unit) \<times> Account" where
  "Account_authorize_amount self amt =
     (if amt < 0 then (Inl InvalidAmountError, self)
      else if balance self \<ge> amt
        then (Inr (), self\<lparr>balance := balance self - amt,
                             authorized_amount := authorized_amount self + amt\<rparr>)
      else (Inl InsufficientFundsError, self))"

definition Account_add_transaction ::
  "UUID \<Rightarrow> nat list \<Rightarrow> Account \<Rightarrow> int \<Rightarrow> Transaction \<times> Account" where
  "Account_add_transaction id_default choices self amt =
     (let transaction =
            Transaction_init id_default amt AUTHORIZED (random_authorization_code choices)
      in (transaction, put_transaction self (id_tx transaction) transaction))"

definition Account_deposit :: "Account \<Rightarrow> int \<Rightarrow> (error + unit) \<times> Account" where
  "Account_deposit self amt =
     (if amt < 0 then (Inl InvalidAmountError, self)
      else (Inr (), self\<lparr>balance := balance self + amt\<rparr>))"

definition Account_withdraw :: "Account \<Rightarrow> int \<Rightarrow> (error + unit) \<times> Account" where
  "Account_withdraw self amt =
     (if amt < 0 then (Inl InvalidAmountError, self)
      else if balance self < amt then (Inl InsufficientFundsError, self)
      else (Inr (), self\<lparr>balance := balance self - amt\<rparr>))"

definition Account_balance :: "Account \<Rightarrow> int" where
  "Account_balance self = balance self"

definition Account_authorized_amount :: "Account \<Rightarrow> int" where
  "Account_authorized_amount self = authorized_amount self"

definition Account_authorize ::
  "UUID \<Rightarrow> nat list \<Rightarrow> Account \<Rightarrow> int \<Rightarrow> (error + UUID) \<times> Account" where
  "Account_authorize id_default choices self amt =
     (case Account_authorize_amount self amt of
        (Inl e, self1) \<Rightarrow> (Inl e, self1)
      | (Inr u, self1) \<Rightarrow>
          (case Account_add_transaction id_default choices self1 amt of
             (transaction, self2) \<Rightarrow> (Inr (id_tx transaction), self2)))"

definition Account_capture :: "Account \<Rightarrow> UUID \<Rightarrow> int \<Rightarrow> (error + unit) \<times> Account" where
  "Account_capture self transaction_id amt =
     (case transactions self transaction_id of
        None \<Rightarrow> (Inl (KeyError transaction_id), self)
      | Some authorization \<Rightarrow>
          (case Transaction_capture authorization amt of
             (Inl e, authorization1) \<Rightarrow>
               (Inl e, put_transaction self transaction_id authorization1)
           | (Inr c, authorization1) \<Rightarrow>
               Account_reduce_hold (put_transaction self transaction_id authorization1) amt))"

definition Account_cancel :: "Account \<Rightarrow> UUID \<Rightarrow> (error + unit) \<times> Account" where
  "Account_cancel self transaction_id =
     (case transactions self transaction_id of
        None \<Rightarrow> (Inl (KeyError transaction_id), self)
      | Some authorization \<Rightarrow>
          (case Transaction_cancel authorization of
             (Inl e, authorization1) \<Rightarrow>
               (Inl e, put_transaction self transaction_id authorization1)
           | (Inr u, authorization1) \<Rightarrow>
               (let self1 = put_transaction self transaction_id authorization1;
                    self2 = self1\<lparr>balance := balance self1 + amount authorization1\<rparr>
                in (Inr (), self2\<lparr>authorized_amount :=
                                     authorized_amount self2 - amount authorization1\<rparr>))))"

definition Account_refund :: "Account \<Rightarrow> UUID \<Rightarrow> int \<Rightarrow> (error + unit) \<times> Account" where
  "Account_refund self transaction_id amt =
     (case transactions self transaction_id of
        None \<Rightarrow> (Inl (KeyError transaction_id), self)
      | Some authorization \<Rightarrow>
          (case Transaction_refund authorization amt of
             (Inl e, authorization1) \<Rightarrow>
               (Inl e, put_transaction self transaction_id authorization1)
           | (Inr r, authorization1) \<Rightarrow>
               (let self1 = put_transaction self transaction_id authorization1
                in (Inr (), self1\<lparr>balance := balance self1 + amt\<rparr>))))"

subsection \<open>Sequences of calls\<close>

text \<open>
  A client of one account: the public calls of \<^verbatim>\<open>Account\<close>, performed one after
  another. \<open>perform\<close> gives the account as a call leaves it, whether the call returns or
  raises (a caller that catches the exception goes on with the same object).
  \<open>id_default\<close> is the default of \<^verbatim>\<open>Transaction.id\<close>, fixed for the whole run of the
  program; every \<open>Authorize\<close> carries the digits drawn for its authorization code.
\<close>

datatype call =
    Deposit int
  | Withdraw int
  | Authorize "nat list" int
  | CaptureOf UUID int
  | Cancel UUID
  | RefundOf UUID int

fun perform :: "UUID \<Rightarrow> Account \<Rightarrow> call \<Rightarrow> Account" where
  "perform id_default acc (Deposit a) = snd (Account_deposit acc a)"
| "perform id_default acc (Withdraw a) = snd (Account_withdraw acc a)"
| "perform id_default acc (Authorize choices a) =
     snd (Account_authorize id_default choices acc a)"
| "perform id_default acc (CaptureOf t a) = snd (Account_capture acc t a)"
| "perform id_default acc (Cancel t) = snd (Account_cancel acc t)"
| "perform id_default acc (RefundOf t a) = snd (Account_refund acc t a)"

definition perform_all :: "UUID \<Rightarrow> Account \<Rightarrow> call list \<Rightarrow> Account" where
  "perform_all id_default acc calls = foldl (perform id_default) acc calls"

text \<open>The same for one transaction and its two recording methods.\<close>

datatype tx_call = DoCapture int | DoRefund int

fun tx_perform :: "Transaction \<Rightarrow> tx_call \<Rightarrow> Transaction" where
  "tx_perform t (DoCapture a) = snd (Transaction_capture t a)"
| "tx_perform t (DoRefund a) = snd (Transaction_refund t a)"

definition tx_perform_all :: "Transaction \<Rightarrow> tx_call list \<Rightarrow> Transaction" where
  "tx_perform_all t calls = foldl tx_perform t calls"

fun capture_nonneg :: "tx_call \<Rightarrow> bool" where
  "capture_nonneg (DoCapture a) = (0 \<le> a)"
| "capture_nonneg (DoRefund a) = True"

text \<open>The two sum bounds of a transaction.\<close>

definition sums_bounded :: "Transaction \<Rightarrow> bool" where
  "sums_bounded t =
     (captured_amount t \<le> amount t \<and> refunded_amount t \<le> captured_amount t)"

text \<open>
  What holds of every transaction an account stores: while no capture is recorded the
  refunds sum to at most zero, and a cancelled transaction has no capture.
\<close>

definition uncaptured_ok :: "Transaction \<Rightarrow> bool" where
  "uncaptured_ok t =
     ((captures t = [] \<longrightarrow> refunded_amount t \<le> 0) \<and>
      (status t = CANCELLED \<longrightarrow> captures t = []))"

definition stored_ok :: "Account \<Rightarrow> bool" where
  "stored_ok acc = (\<forall>k t. transactions acc k = Some t \<longrightarrow> uncaptured_ok t)"

section \<open>Properties\<close>

lemmas tx_defs = Transaction_capture_def Transaction_cancel_def Transaction_refund_def
  captured_amount_def refunded_amount_def has_captures_def is_cancelled_def
  is_authorized_def Transaction_init_def

lemmas acc_defs = Account_init_def put_transaction_def Account_reduce_hold_def
  Account_authorize_amount_def Account_add_transaction_def Account_deposit_def
  Account_withdraw_def Account_authorize_def Account_capture_def Account_cancel_def
  Account_refund_def

subsection \<open>Cancelling twice\<close>

text \<open>
  \<^verbatim>\<open>Transaction.cancel\<close> returns at once for a cancelled transaction, and
  \<^verbatim>\<open>Account.cancel\<close> then moves the amount from the hold to the balance as it does after
  the first cancellation.
\<close>

lemma Account_cancel_cancelled:
  assumes "transactions acc t = Some tx" and "status tx = CANCELLED"
  shows "Account_cancel acc t =
           (Inr (), acc\<lparr>balance := balance acc + amount tx,
                        authorized_amount := authorized_amount acc - amount tx\<rparr>)"
  using assms by (simp add: acc_defs tx_defs Let_def map_upd_triv)

text \<open>
  C1. Claimed: a call of \<^verbatim>\<open>Account.cancel\<close> on a transaction that is already cancelled
  leaves balance and authorized amount as they are. On the code, for an account opened with
  1000: authorize 100, cancel, and the account is back at balance 1000 and hold 0 with the
  transaction cancelled; the second cancel returns without an error and leaves balance 1100
  and hold -100.
\<close>

theorem cancel_twice_releases_twice:
  "\<exists>t acc1 acc2 acc3.
     Account_authorize 7 [1,2,3,4,5,6] (Account_init 1000) 100 = (Inr t, acc1) \<and>
     Account_cancel acc1 t = (Inr (), acc2) \<and>
     map_option status (transactions acc2 t) = Some CANCELLED \<and>
     balance acc2 = 1000 \<and> authorized_amount acc2 = 0 \<and>
     Account_cancel acc2 t = (Inr (), acc3) \<and>
     balance acc3 = 1100 \<and> authorized_amount acc3 = - 100"
  by (simp add: acc_defs tx_defs Let_def)

subsection \<open>Authorize\<close>

text \<open>The authorization code of six drawn digits is the string of those digits.\<close>

lemma str_nat_digit: "d < 10 \<Longrightarrow> str_nat d = [digit_char d]"
  by (simp add: str_nat.simps)

lemma random_authorization_code_digits:
  "\<forall>d \<in> set choices. d < 10 \<Longrightarrow>
     random_authorization_code choices = map digit_char choices"
  unfolding random_authorization_code_def concat_str_def
  by (induction choices) (simp_all add: str_nat_digit)

text \<open>
  C7. \<^verbatim>\<open>Account.authorize(amount)\<close> raises \<^verbatim>\<open>InvalidAmountError\<close> for a negative
  amount; for a non-negative amount above the balance it raises
  \<^verbatim>\<open>InsufficientFundsError\<close>; in both cases the account is as before. Otherwise it returns
  an id, the balance has gone down and the hold up by the amount, and under the returned id
  the account stores a transaction with that id, the amount, status authorized, the
  authorization code made from the digits drawn in this call, and no capture and no refund;
  every other key of the dictionary is as before.
\<close>

theorem Account_authorize_contract:
  "(amt < 0 \<longrightarrow>
      Account_authorize id_default choices acc amt = (Inl InvalidAmountError, acc)) \<and>
   (0 \<le> amt \<and> balance acc < amt \<longrightarrow>
      Account_authorize id_default choices acc amt = (Inl InsufficientFundsError, acc)) \<and>
   (0 \<le> amt \<and> amt \<le> balance acc \<longrightarrow>
      (\<exists>tid acc'.
         Account_authorize id_default choices acc amt = (Inr tid, acc') \<and>
         balance acc' = balance acc - amt \<and>
         authorized_amount acc' = authorized_amount acc + amt \<and>
         transactions acc' tid =
           Some \<lparr>id_tx = tid, amount = amt, status = AUTHORIZED,
                 authorization_code = random_authorization_code choices,
                 captures = [], refunds = []\<rparr> \<and>
         (\<forall>k. k \<noteq> tid \<longrightarrow> transactions acc' k = transactions acc k)))"
  by (simp add: acc_defs tx_defs Let_def)

theorem Account_authorize_contract_witness:
  "((- 1 :: int) < 0 \<and>
      Account_authorize 7 [1,2,3,4,5,6] (Account_init 1000) (- 1) =
        (Inl InvalidAmountError, Account_init 1000)) \<and>
   ((0::int) \<le> 1001 \<and> balance (Account_init 1000) < 1001 \<and>
      Account_authorize 7 [1,2,3,4,5,6] (Account_init 1000) 1001 =
        (Inl InsufficientFundsError, Account_init 1000)) \<and>
   ((0::int) \<le> 100 \<and> 100 \<le> balance (Account_init 1000) \<and>
      (\<exists>tid acc'.
         Account_authorize 7 [1,2,3,4,5,6] (Account_init 1000) 100 = (Inr tid, acc') \<and>
         balance acc' = 900 \<and> authorized_amount acc' = 100 \<and>
         map_option id_tx (transactions acc' tid) = Some tid \<and>
         map_option status (transactions acc' tid) = Some AUTHORIZED \<and>
         map_option amount (transactions acc' tid) = Some 100 \<and>
         map_option captures (transactions acc' tid) = Some []))"
  using Account_authorize_contract [of "- 1" 7 "[1,2,3,4,5,6]" "Account_init 1000"]
        Account_authorize_contract [of 1001 7 "[1,2,3,4,5,6]" "Account_init 1000"]
        Account_authorize_contract [of 100 7 "[1,2,3,4,5,6]" "Account_init 1000"]
  by (auto simp: Account_init_def)

subsection \<open>Authorize, then cancel\<close>

text \<open>
  C9. For every account and every amount between 0 and the balance,
  \<^verbatim>\<open>Account.authorize\<close> returns an id, \<^verbatim>\<open>Account.cancel\<close> of that id returns, and
  balance and authorized amount are then what they were before the authorization.
\<close>

theorem authorize_cancel_roundtrip:
  assumes "0 \<le> a" and "a \<le> balance acc"
  shows "\<exists>tid acc1 acc2.
           Account_authorize id_default choices acc a = (Inr tid, acc1) \<and>
           Account_cancel acc1 tid = (Inr (), acc2) \<and>
           balance acc2 = balance acc \<and>
           authorized_amount acc2 = authorized_amount acc"
  using assms by (simp add: acc_defs tx_defs Let_def)

theorem authorize_cancel_roundtrip_witness:
  "(0::int) \<le> 100 \<and> 100 \<le> balance (Account_init 1000) \<and>
   (\<exists>tid acc1 acc2.
      Account_authorize 7 [1,2,3,4,5,6] (Account_init 1000) 100 = (Inr tid, acc1) \<and>
      Account_cancel acc1 tid = (Inr (), acc2) \<and>
      balance acc2 = balance (Account_init 1000) \<and>
      authorized_amount acc2 = authorized_amount (Account_init 1000))"
  using authorize_cancel_roundtrip [of 100 "Account_init 1000" 7 "[1,2,3,4,5,6]"]
  by (simp add: Account_init_def)

subsection \<open>The id of a transaction\<close>

text \<open>
  Whatever the account and the amount, an authorization that returns gives back the
  class-level default and stores the new transaction under it, over whatever was there.
\<close>

lemma Account_authorize_returns_default:
  "Account_authorize d ch acc a = (Inr t, acc') \<Longrightarrow>
     t = d \<and>
     transactions acc' =
       (transactions acc)(d \<mapsto> Transaction_init d a AUTHORIZED (random_authorization_code ch))"
  by (auto simp: Account_authorize_def Account_authorize_amount_def
                 Account_add_transaction_def put_transaction_def Transaction_init_def Let_def
           split: if_splits)

text \<open>
  C3. Claimed: every authorization gets an id of its own, and two successive authorizations
  on one account return different ids and both stay in the dictionary. On the code, for an
  account opened with 1000: authorize 100 and then authorize 50 return the same id (the
  class-level default), the dictionary has that one key, the transaction under it is the
  second one (amount 50), and the hold of 150 covers both.
\<close>

theorem authorize_reuses_id:
  "\<exists>t1 acc1 t2 acc2.
     Account_authorize 7 [1,2,3,4,5,6] (Account_init 1000) 100 = (Inr t1, acc1) \<and>
     Account_authorize 7 [6,5,4,3,2,1] acc1 50 = (Inr t2, acc2) \<and>
     t1 = t2 \<and> dom (transactions acc2) = {t2} \<and>
     map_option amount (transactions acc2 t2) = Some 50 \<and>
     authorized_amount acc2 = 150"
  by (simp add: acc_defs tx_defs Let_def)

subsection \<open>Calls that raise\<close>

text \<open>
  The methods of \<^verbatim>\<open>Transaction\<close> check before they write, and so do
  \<^verbatim>\<open>deposit\<close>, \<^verbatim>\<open>withdraw\<close>, \<^verbatim>\<open>authorize\<close>, \<^verbatim>\<open>cancel\<close> and \<^verbatim>\<open>refund\<close> of
  \<^verbatim>\<open>Account\<close>: when they raise, the object is as before. \<^verbatim>\<open>Account.capture\<close> checks
  the hold after \<^verbatim>\<open>Transaction.capture\<close> has appended the record.
\<close>

lemma Transaction_capture_error_unchanged:
  "Transaction_capture t a = (Inl e, t') \<Longrightarrow> t' = t"
  by (auto simp: Transaction_capture_def split: if_splits)

lemma Transaction_cancel_error_unchanged:
  "Transaction_cancel t = (Inl e, t') \<Longrightarrow> t' = t"
  by (auto simp: Transaction_cancel_def split: if_splits)

lemma Transaction_refund_error_unchanged:
  "Transaction_refund t a = (Inl e, t') \<Longrightarrow> t' = t"
  by (auto simp: Transaction_refund_def split: if_splits)

lemma put_transaction_same:
  "transactions acc k = Some t \<Longrightarrow> put_transaction acc k t = acc"
  by (simp add: put_transaction_def map_upd_triv)

lemma Account_deposit_error_unchanged:
  "Account_deposit acc a = (Inl e, acc') \<Longrightarrow> acc' = acc"
  by (auto simp: Account_deposit_def split: if_splits)

lemma Account_withdraw_error_unchanged:
  "Account_withdraw acc a = (Inl e, acc') \<Longrightarrow> acc' = acc"
  by (auto simp: Account_withdraw_def split: if_splits)

lemma Account_authorize_error_unchanged:
  "Account_authorize d ch acc a = (Inl e, acc') \<Longrightarrow> acc' = acc"
  by (auto simp: Account_authorize_def Account_authorize_amount_def
                 Account_add_transaction_def Let_def split: if_splits)

lemma Account_cancel_error_unchanged:
  "Account_cancel acc k = (Inl e, acc') \<Longrightarrow> acc' = acc"
  by (auto simp: Account_cancel_def Let_def put_transaction_same
           dest!: Transaction_cancel_error_unchanged
           split: option.splits prod.splits sum.splits)

lemma Account_refund_error_unchanged:
  "Account_refund acc k a = (Inl e, acc') \<Longrightarrow> acc' = acc"
  by (auto simp: Account_refund_def Let_def put_transaction_same
           dest!: Transaction_refund_error_unchanged
           split: option.splits prod.splits sum.splits)

lemma Account_capture_error_cases:
  assumes "Account_capture acc k a = (Inl e, acc')"
  shows "acc' = acc \<or>
         (e = InsufficientFundsError \<and> authorized_amount acc < a \<and>
          (\<exists>t. transactions acc k = Some t \<and>
               acc' = put_transaction acc k (t\<lparr>captures := captures t @ [Capture a]\<rparr>)))"
proof (cases "transactions acc k")
  case None
  with assms show ?thesis by (simp add: Account_capture_def)
next
  case (Some t)
  show ?thesis
  proof (cases "fst (Transaction_capture t a)")
    case (Inl e1)
    then obtain t1 where c: "Transaction_capture t a = (Inl e1, t1)"
      by (cases "Transaction_capture t a") simp
    then have "t1 = t" by (rule Transaction_capture_error_unchanged)
    with assms Some c show ?thesis
      by (simp add: Account_capture_def put_transaction_same)
  next
    case (Inr c1)
    then have c: "Transaction_capture t a =
                    (Inr (Capture a), t\<lparr>captures := captures t @ [Capture a]\<rparr>)"
      by (auto simp: Transaction_capture_def split: if_splits)
    with assms Some show ?thesis
      by (auto simp: Account_capture_def Account_reduce_hold_def put_transaction_def
               split: if_splits)
  qed
qed

text \<open>
  C2. Claimed: when a call on an account raises, balance, authorized amount and every
  transaction's status, captures and refunds are as before the call. On the code, for an
  account opened with 100: authorize 10, cancel twice (balance 110, hold -10), authorize
  110 (balance 0, hold 100, a transaction of 110 with no capture). Capturing 110 on it
  raises \<^verbatim>\<open>InsufficientFundsError\<close>, and the transaction now has the capture of 110
  recorded.
\<close>

theorem capture_hold_check_after_append:
  "\<exists>acc acc'.
     perform_all 7 (Account_init 100)
       [Authorize [1,2,3,4,5,6] 10, Cancel 7, Cancel 7, Authorize [6,5,4,3,2,1] 110] = acc \<and>
     balance acc = 0 \<and> authorized_amount acc = 100 \<and>
     map_option captures (transactions acc 7) = Some [] \<and>
     Account_capture acc 7 110 = (Inl InsufficientFundsError, acc') \<and>
     map_option captures (transactions acc' 7) = Some [Capture 110]"
  by (simp add: perform_all_def acc_defs tx_defs Let_def)

subsection \<open>Signs of balance and hold\<close>

text \<open>
  C4. Claimed: from a non-negative opening balance, balance and authorized amount are
  non-negative after every sequence of public calls. On the code: opened with 1000,
  authorize 100 and cancel twice leaves the authorized amount at -100; opened with 0,
  authorize 0 and refund -5 on the returned id leaves the balance at -5.
\<close>

theorem negative_amounts_reachable:
  "authorized_amount (perform_all 7 (Account_init 1000)
       [Authorize [1,2,3,4,5,6] 100, Cancel 7, Cancel 7]) = - 100 \<and>
   balance (perform_all 7 (Account_init 0)
       [Authorize [1,2,3,4,5,6] 0, RefundOf 7 (- 5)]) = - 5"
  by (simp add: perform_all_def acc_defs tx_defs Let_def)

subsection \<open>Negative capture amounts\<close>

text \<open>
  C8. Claimed: \<^verbatim>\<open>Account.capture\<close> validates the amount before it delegates, so a
  negative amount never appends a capture record. On the code, for an account opened with
  1000: authorize 100, then capture -50 on the returned id returns without an error, the
  transaction has the capture of -50 recorded, and the hold has grown to 150.
\<close>

theorem negative_capture_recorded:
  "\<exists>t acc1 acc2.
     Account_authorize 7 [1,2,3,4,5,6] (Account_init 1000) 100 = (Inr t, acc1) \<and>
     Account_capture acc1 t (- 50) = (Inr (), acc2) \<and>
     map_option captures (transactions acc2 t) = Some [Capture (- 50)] \<and>
     authorized_amount acc2 = 150"
  by (simp add: acc_defs tx_defs Let_def)

subsection \<open>The sums of captures and refunds\<close>

text \<open>
  C5, as claimed: after every sequence of capture and refund calls on a transaction the
  captures sum to at most the amount and the refunds to at most the captures. It fails on
  a transaction of 100: capture 100, refund 100, capture -50 are all accepted, and then the
  refunds sum to 100 and the captures to 50.
\<close>

theorem sums_bounded_counterexample:
  "\<not> sums_bounded (tx_perform_all (Transaction_init 7 100 AUTHORIZED ''123456'')
        [DoCapture 100, DoRefund 100, DoCapture (- 50)])"
  by (simp add: sums_bounded_def tx_perform_all_def tx_defs)

text \<open>
  The first bound is kept by every call, whatever its amount: \<^verbatim>\<open>Transaction.capture\<close>
  appends only when the new sum stays within the amount, and \<^verbatim>\<open>Transaction.refund\<close>
  touches neither the captures nor the amount. The second bound is kept by every refund
  and by every capture of a non-negative amount.
\<close>

lemma sums_bounded_init:
  "0 \<le> a \<Longrightarrow> sums_bounded (Transaction_init d a st code)"
  by (simp add: sums_bounded_def tx_defs)

lemma tx_perform_captured_bound:
  assumes "captured_amount t \<le> amount t"
  shows "captured_amount (tx_perform t c) \<le> amount (tx_perform t c)"
  using assms by (cases c) (auto simp: tx_defs)

lemma tx_perform_all_captured_bound:
  assumes "captured_amount t \<le> amount t"
  shows "captured_amount (tx_perform_all t calls) \<le> amount (tx_perform_all t calls)"
  using assms unfolding tx_perform_all_def
proof (induction calls arbitrary: t)
  case Nil
  then show ?case by simp
next
  case (Cons c calls)
  from Cons.prems have "captured_amount (tx_perform t c) \<le> amount (tx_perform t c)"
    by (rule tx_perform_captured_bound)
  then show ?case by (simp add: Cons.IH)
qed

lemma tx_perform_refunded_bound:
  assumes "refunded_amount t \<le> captured_amount t" and "capture_nonneg c"
  shows "refunded_amount (tx_perform t c) \<le> captured_amount (tx_perform t c)"
  using assms by (cases c) (auto simp: tx_defs)

lemma tx_perform_all_refunded_bound:
  assumes "refunded_amount t \<le> captured_amount t" and "list_all capture_nonneg calls"
  shows "refunded_amount (tx_perform_all t calls) \<le> captured_amount (tx_perform_all t calls)"
  using assms unfolding tx_perform_all_def
proof (induction calls arbitrary: t)
  case Nil
  then show ?case by simp
next
  case (Cons c calls)
  from Cons.prems
  have "refunded_amount (tx_perform t c) \<le> captured_amount (tx_perform t c)"
    by (simp add: tx_perform_refunded_bound)
  with Cons.prems show ?case by (simp add: Cons.IH)
qed

text \<open>
  C5, amended. For every transaction, every finite sequence of capture and refund calls on
  it, each returning or raising, and every prefix of the sequence: if the captures sum to
  at most the amount before the calls (a new transaction with a non-negative amount), they
  do so after the prefix, whatever the amounts of the calls; and if the refunds sum to at
  most the captures before the calls (a new transaction) and no capture amount of the
  sequence is negative, they do so after the prefix. Refund amounts are not restricted.
\<close>

theorem capture_and_refund_bounds:
  "(captured_amount t \<le> amount t \<longrightarrow>
      captured_amount (tx_perform_all t (take n calls))
        \<le> amount (tx_perform_all t (take n calls))) \<and>
   (refunded_amount t \<le> captured_amount t \<and> list_all capture_nonneg calls \<longrightarrow>
      refunded_amount (tx_perform_all t (take n calls))
        \<le> captured_amount (tx_perform_all t (take n calls)))"
proof (intro conjI impI)
  assume "captured_amount t \<le> amount t"
  then show "captured_amount (tx_perform_all t (take n calls))
               \<le> amount (tx_perform_all t (take n calls))"
    by (rule tx_perform_all_captured_bound)
next
  assume h: "refunded_amount t \<le> captured_amount t \<and> list_all capture_nonneg calls"
  then have "list_all capture_nonneg (take n calls)"
    by (auto simp: list_all_iff dest: in_set_takeD)
  with h show "refunded_amount (tx_perform_all t (take n calls))
                 \<le> captured_amount (tx_perform_all t (take n calls))"
    by (simp add: tx_perform_all_refunded_bound)
qed

theorem capture_and_refund_bounds_witness:
  "(captured_amount (Transaction_init 7 100 AUTHORIZED ''123456'')
      \<le> amount (Transaction_init 7 100 AUTHORIZED ''123456'') \<and>
    captures (tx_perform_all (Transaction_init 7 100 AUTHORIZED ''123456'')
      (take 3 [DoCapture 100, DoRefund 100, DoCapture (- 50)]))
      = [Capture 100, Capture (- 50)] \<and>
    captured_amount (tx_perform_all (Transaction_init 7 100 AUTHORIZED ''123456'')
      (take 3 [DoCapture 100, DoRefund 100, DoCapture (- 50)]))
      \<le> amount (tx_perform_all (Transaction_init 7 100 AUTHORIZED ''123456'')
           (take 3 [DoCapture 100, DoRefund 100, DoCapture (- 50)]))) \<and>
   (refunded_amount (Transaction_init 7 100 AUTHORIZED ''123456'')
      \<le> captured_amount (Transaction_init 7 100 AUTHORIZED ''123456'') \<and>
    list_all capture_nonneg
      [DoCapture 60, DoRefund (- 5), DoCapture 50, DoCapture 40, DoRefund 106, DoRefund 100] \<and>
    captures (tx_perform_all (Transaction_init 7 100 AUTHORIZED ''123456'')
      (take 6 [DoCapture 60, DoRefund (- 5), DoCapture 50, DoCapture 40, DoRefund 106,
               DoRefund 100])) = [Capture 60, Capture 40] \<and>
    refunds (tx_perform_all (Transaction_init 7 100 AUTHORIZED ''123456'')
      (take 6 [DoCapture 60, DoRefund (- 5), DoCapture 50, DoCapture 40, DoRefund 106,
               DoRefund 100])) = [Refund (- 5), Refund 100] \<and>
    refunded_amount (tx_perform_all (Transaction_init 7 100 AUTHORIZED ''123456'')
      (take 6 [DoCapture 60, DoRefund (- 5), DoCapture 50, DoCapture 40, DoRefund 106,
               DoRefund 100]))
      \<le> captured_amount (tx_perform_all (Transaction_init 7 100 AUTHORIZED ''123456'')
           (take 6 [DoCapture 60, DoRefund (- 5), DoCapture 50, DoCapture 40, DoRefund 106,
                    DoRefund 100])))"
  using capture_and_refund_bounds
          [of "Transaction_init 7 100 AUTHORIZED ''123456''" 3
              "[DoCapture 100, DoRefund 100, DoCapture (- 50)]"]
        capture_and_refund_bounds
          [of "Transaction_init 7 100 AUTHORIZED ''123456''" 6
              "[DoCapture 60, DoRefund (- 5), DoCapture 50, DoCapture 40, DoRefund 106,
                DoRefund 100]"]
  by (simp add: tx_perform_all_def tx_defs)

subsection \<open>An id the account does not know\<close>

text \<open>
  C6, as claimed: capture, cancel and refund with an id that is not a key of the account's
  dictionary fail with \<^verbatim>\<open>TransactionNotFound\<close>. No exception of the program has that
  class: on a new account, capture with an unknown id raises an exception of another class.
\<close>

theorem unknown_id_counterexample:
  "\<not> raises (fst (Account_capture (Account_init 1000) 7 10)) ''TransactionNotFound''"
  by (simp add: acc_defs)

text \<open>
  C6, amended: for every account and every id that is not a key of its dictionary,
  \<^verbatim>\<open>Account.capture\<close>, \<^verbatim>\<open>Account.cancel\<close> and \<^verbatim>\<open>Account.refund\<close> raise Python's
  \<^verbatim>\<open>KeyError\<close> for that id, from the subscript \<^verbatim>\<open>self.__transactions[transaction_id]\<close>,
  and leave the account as it was.
\<close>

theorem unknown_id_KeyError:
  assumes "transactions acc tid = None"
  shows "Account_capture acc tid amt = (Inl (KeyError tid), acc) \<and>
         Account_cancel acc tid = (Inl (KeyError tid), acc) \<and>
         Account_refund acc tid amt = (Inl (KeyError tid), acc)"
  using assms by (simp add: acc_defs)

theorem unknown_id_KeyError_witness:
  "transactions (Account_init 1000) 7 = None \<and>
   Account_capture (Account_init 1000) 7 10 = (Inl (KeyError 7), Account_init 1000) \<and>
   Account_cancel (Account_init 1000) 7 = (Inl (KeyError 7), Account_init 1000) \<and>
   Account_refund (Account_init 1000) 7 10 = (Inl (KeyError 7), Account_init 1000)"
  using unknown_id_KeyError [of "Account_init 1000" 7 10]
  by (simp add: Account_init_def)

subsection \<open>Negative refund amounts\<close>

text \<open>
  Every transaction that an account stores after any sequence of calls satisfies
  \<open>uncaptured_ok\<close>: the three methods of \<^verbatim>\<open>Transaction\<close> keep it, and a new transaction
  has it.
\<close>

lemma stored_ok_init: "stored_ok (Account_init b)"
  by (simp add: stored_ok_def Account_init_def)

lemma Transaction_capture_ok:
  "uncaptured_ok t \<Longrightarrow> uncaptured_ok (snd (Transaction_capture t a))"
  by (auto simp: uncaptured_ok_def tx_defs)

lemma Transaction_cancel_ok:
  "uncaptured_ok t \<Longrightarrow> uncaptured_ok (snd (Transaction_cancel t))"
  by (auto simp: uncaptured_ok_def tx_defs)

lemma Transaction_refund_ok:
  "uncaptured_ok t \<Longrightarrow> uncaptured_ok (snd (Transaction_refund t a))"
  by (auto simp: uncaptured_ok_def tx_defs)

lemma stored_ok_put:
  "stored_ok acc \<Longrightarrow> uncaptured_ok t \<Longrightarrow> stored_ok (put_transaction acc k t)"
  by (auto simp: stored_ok_def put_transaction_def)

lemma stored_ok_fields [simp]:
  "stored_ok (acc\<lparr>balance := b\<rparr>) = stored_ok acc"
  "stored_ok (acc\<lparr>authorized_amount := h\<rparr>) = stored_ok acc"
  by (simp_all add: stored_ok_def)

lemma stored_okD:
  "stored_ok acc \<Longrightarrow> transactions acc k = Some t \<Longrightarrow> uncaptured_ok t"
  by (auto simp: stored_ok_def)

lemma perform_stored_ok:
  assumes "stored_ok acc"
  shows "stored_ok (perform d acc c)"
proof (cases c)
  case (Deposit a)
  with assms show ?thesis by (simp add: Account_deposit_def)
next
  case (Withdraw a)
  with assms show ?thesis by (simp add: Account_withdraw_def)
next
  case (Authorize ch a)
  have "uncaptured_ok (Transaction_init d a AUTHORIZED (random_authorization_code ch))"
    by (simp add: uncaptured_ok_def tx_defs)
  with assms Authorize show ?thesis
    by (simp add: Account_authorize_def Account_authorize_amount_def
                  Account_add_transaction_def Let_def stored_ok_put)
next
  case (CaptureOf k a)
  show ?thesis
  proof (cases "transactions acc k")
    case None
    with assms CaptureOf show ?thesis by (simp add: Account_capture_def)
  next
    case (Some t)
    with assms have "uncaptured_ok (snd (Transaction_capture t a))"
      by (blast intro: Transaction_capture_ok stored_okD)
    with assms CaptureOf Some show ?thesis
      by (auto simp: Account_capture_def Account_reduce_hold_def
               intro: stored_ok_put split: prod.splits sum.splits)
  qed
next
  case (Cancel k)
  show ?thesis
  proof (cases "transactions acc k")
    case None
    with assms Cancel show ?thesis by (simp add: Account_cancel_def)
  next
    case (Some t)
    with assms have "uncaptured_ok (snd (Transaction_cancel t))"
      by (blast intro: Transaction_cancel_ok stored_okD)
    with assms Cancel Some show ?thesis
      by (auto simp: Account_cancel_def Let_def
               intro: stored_ok_put split: prod.splits sum.splits)
  qed
next
  case (RefundOf k a)
  show ?thesis
  proof (cases "transactions acc k")
    case None
    with assms RefundOf show ?thesis by (simp add: Account_refund_def)
  next
    case (Some t)
    with assms have "uncaptured_ok (snd (Transaction_refund t a))"
      by (blast intro: Transaction_refund_ok stored_okD)
    with assms RefundOf Some show ?thesis
      by (auto simp: Account_refund_def Let_def
               intro: stored_ok_put split: prod.splits sum.splits)
  qed
qed

lemma perform_all_stored_ok:
  "stored_ok acc \<Longrightarrow> stored_ok (perform_all d acc calls)"
  unfolding perform_all_def
  by (induction calls arbitrary: acc) (simp_all add: perform_stored_ok)

text \<open>
  C10. For every account and every transaction \<open>tx\<close> it stores under \<open>tid\<close>,
  \<^verbatim>\<open>Account.refund(tid, amount)\<close> with a negative amount and
  \<open>sum(refunds) + amount \<le> sum(captures)\<close> returns without an error, appends
  \<^verbatim>\<open>Refund(amount)\<close> to the refunds of the transaction, lowers the balance by the absolute
  value of the amount and leaves the hold. And the condition holds for every negative
  amount on a transaction without captures, or cancelled, that an account opened by
  \<^verbatim>\<open>Account(b)\<close> stores after any sequence of public calls.
\<close>

theorem Account_refund_negative_amount:
  "(transactions acc tid = Some tx \<and> amt < 0 \<and>
      refunded_amount tx + amt \<le> captured_amount tx \<longrightarrow>
      (\<exists>acc'. Account_refund acc tid amt = (Inr (), acc') \<and>
         transactions acc' =
           (transactions acc)(tid \<mapsto> tx\<lparr>refunds := refunds tx @ [Refund amt]\<rparr>) \<and>
         balance acc' = balance acc - \<bar>amt\<bar> \<and>
         authorized_amount acc' = authorized_amount acc)) \<and>
   (transactions (perform_all id_default (Account_init b) calls) tid = Some tx \<and> amt < 0 \<and>
      (captures tx = [] \<or> status tx = CANCELLED) \<longrightarrow>
      refunded_amount tx + amt \<le> captured_amount tx)"
proof (intro conjI impI)
  assume "transactions acc tid = Some tx \<and> amt < 0 \<and>
      refunded_amount tx + amt \<le> captured_amount tx"
  then show "\<exists>acc'. Account_refund acc tid amt = (Inr (), acc') \<and>
         transactions acc' =
           (transactions acc)(tid \<mapsto> tx\<lparr>refunds := refunds tx @ [Refund amt]\<rparr>) \<and>
         balance acc' = balance acc - \<bar>amt\<bar> \<and>
         authorized_amount acc' = authorized_amount acc"
    by (simp add: Account_refund_def Transaction_refund_def put_transaction_def Let_def)
next
  assume h: "transactions (perform_all id_default (Account_init b) calls) tid = Some tx \<and>
      amt < 0 \<and> (captures tx = [] \<or> status tx = CANCELLED)"
  have "stored_ok (perform_all id_default (Account_init b) calls)"
    by (rule perform_all_stored_ok [OF stored_ok_init])
  with h have "uncaptured_ok tx" by (blast dest: stored_okD)
  with h show "refunded_amount tx + amt \<le> captured_amount tx"
    by (auto simp: uncaptured_ok_def captured_amount_def)
qed

theorem Account_refund_negative_amount_witness:
  "transactions (perform_all 7 (Account_init 1000) [Authorize [1,2,3,4,5,6] 100, Cancel 7]) 7 =
     Some \<lparr>id_tx = 7, amount = 100, status = CANCELLED,
           authorization_code = random_authorization_code [1,2,3,4,5,6],
           captures = [], refunds = []\<rparr> \<and>
   (- 5 :: int) < 0 \<and>
   status \<lparr>id_tx = 7, amount = 100, status = CANCELLED,
           authorization_code = random_authorization_code [1,2,3,4,5,6],
           captures = [], refunds = []\<rparr> = CANCELLED \<and>
   refunded_amount \<lparr>id_tx = 7, amount = 100, status = CANCELLED,
           authorization_code = random_authorization_code [1,2,3,4,5,6],
           captures = [], refunds = []\<rparr> + (- 5)
     \<le> captured_amount \<lparr>id_tx = 7, amount = 100, status = CANCELLED,
           authorization_code = random_authorization_code [1,2,3,4,5,6],
           captures = [], refunds = []\<rparr> \<and>
   (\<exists>acc'. Account_refund
             (perform_all 7 (Account_init 1000) [Authorize [1,2,3,4,5,6] 100, Cancel 7])
             7 (- 5) = (Inr (), acc') \<and>
           map_option refunds (transactions acc' 7) = Some [Refund (- 5)] \<and>
           balance acc' = 995 \<and> authorized_amount acc' = 0)"
  using Account_refund_negative_amount
          [of "perform_all 7 (Account_init 1000) [Authorize [1,2,3,4,5,6] 100, Cancel 7]" 7
              "\<lparr>id_tx = 7, amount = 100, status = CANCELLED,
                authorization_code = random_authorization_code [1,2,3,4,5,6],
                captures = [], refunds = []\<rparr>"
              "- 5" 7 1000 "[Authorize [1,2,3,4,5,6] 100, Cancel 7]"]
  by (simp add: perform_all_def acc_defs tx_defs Let_def)

end
